theory Spec2Isabelle
  imports Main "HOL-Library.Word"
begin

section \<open>On-demand retrieval requests of the light client (light/odr.go)\<close>

subsection \<open>Bytes, hashes and big integers\<close>

text \<open>
  Bytes are a list. A Go byte slice that is handed to the database, or comes back from it,
  is a \<open>slice\<close>: \<open>None\<close> is \<^verbatim>\<open>nil\<close> and \<open>Some []\<close> is the empty slice that is not \<^verbatim>\<open>nil\<close>;
  the source tests such a slice for \<^verbatim>\<open>nil\<close>. The proof nodes, the code and the body bytes of
  the requests are slices. The other byte slices (the key of a trie request, the account
  key of a trie identity) are never tested and never stored: they are lists, \<^verbatim>\<open>nil\<close> and the
  empty slice both being \<open>[]\<close>. \<^verbatim>\<open>common.Hash\<close> is a 32-byte array; no function of this file
  reads its length, and \<^verbatim>\<open>h[:]\<close> is the same bytes as a slice. Pointers are modelled by
  the values they point to: a header is an already-decoded header, it and its \<^verbatim>\<open>Number\<close>
  are not \<^verbatim>\<open>nil\<close>. A field that several structs have is written with the struct's name
  where it is not clear which one is meant (\<open>header.Number\<close>, \<open>CodeRequest.Hash\<close>), and the
  field \<^verbatim>\<open>Id\<close> is written \<open>Id'\<close>, \<open>Id\<close> being the identity relation of HOL.
\<close>

type_synonym bytes = "8 word list"
type_synonym hash = bytes
type_synonym slice = "bytes option"

text \<open>The bytes a slice holds: none for \<^verbatim>\<open>nil\<close>.\<close>

fun bytes_of :: "slice \<Rightarrow> bytes" where
  "bytes_of None = []"
| "bytes_of (Some b) = b"

text \<open>
  \<^verbatim>\<open>(*big.Int).Uint64()\<close> of the Go library: the low 64 bits of the magnitude of an
  integer of any size.
\<close>

definition Uint64 :: "int \<Rightarrow> 64 word" where
  "Uint64 x = word_of_int \<bar>x\<bar>"

text \<open>
  \<^verbatim>\<open>types.Header\<close> is declared in core/types. This file reads two of its fields,
  \<^verbatim>\<open>Number\<close> (a big integer) and \<^verbatim>\<open>Root\<close>, and calls its method \<^verbatim>\<open>Hash()\<close>, which is a
  parameter \<open>hh\<close> of the functions below. \<open>Rest\<close> stands for the fields that are not read.
  A receipt of \<^verbatim>\<open>types.Receipts\<close> is opaque here.
\<close>

record header =
  Number :: int
  Root :: hash
  Rest :: bytes

type_synonym receipt = bytes

subsection \<open>The database\<close>

text \<open>
  Modelled from the spec: the key-value database \<^verbatim>\<open>wtcdb.Database\<close>, which is not in
  light/odr.go. Its contract is \<^verbatim>\<open>get(key)\<close> giving bytes or absent and \<^verbatim>\<open>put(key, bytes)\<close>
  giving success or failure. Keys are content hashes for code and proof nodes, and
  structured per-block keys derived from block hash and number for bodies, receipts,
  headers, total-difficulty and canonical-hash records; a record is kept as the value that
  was encoded into it. The database hands back what was put: under a key where a \<^verbatim>\<open>nil\<close>
  slice was put, \<^verbatim>\<open>Get\<close> gives \<^verbatim>\<open>nil\<close>, as it does for an absent key.

  The state of a database is its \<open>contents\<close>. \<open>accepts\<close> says which writes the
  database takes; \<open>puts\<close> is the history of the calls of \<^verbatim>\<open>Put\<close>, oldest first, each with
  its outcome.
\<close>

datatype db_key =
    ContentKey bytes
  | HeaderKey hash "64 word"
  | TdKey hash "64 word"
  | CanonicalHashKey "64 word"
  | BodyKey hash "64 word"
  | ReceiptsKey hash "64 word"

datatype db_value =
    RawValue slice
  | HeaderValue header
  | TdValue int
  | HashValue hash
  | ReceiptsValue "receipt list"

datatype db_error = WriteRejected

record database =
  contents :: "db_key \<rightharpoonup> db_value"
  accepts :: "db_key \<Rightarrow> db_value \<Rightarrow> bool"
  puts :: "(db_key \<times> db_value \<times> bool) list"

text \<open>\<^verbatim>\<open>db.Get(key)\<close>: the entry under the key, \<open>None\<close> when the key is absent.\<close>

definition Get :: "database \<Rightarrow> db_key \<Rightarrow> db_value option" where
  "Get db k = contents db k"

text \<open>
  The Go test \<^verbatim>\<open>val == nil\<close> on what \<^verbatim>\<open>Get\<close> handed back: true for an absent key and
  for a key that holds a \<^verbatim>\<open>nil\<close> slice, false for every other entry.
\<close>

fun is_nil :: "db_value option \<Rightarrow> bool" where
  "is_nil None = True"
| "is_nil (Some (RawValue None)) = True"
| "is_nil (Some v) = False"

text \<open>\<^verbatim>\<open>db.Put(key, value)\<close>: the error, if any, and the database afterwards.\<close>

definition Put :: "database \<Rightarrow> db_key \<Rightarrow> db_value \<Rightarrow> db_error option \<times> database" where
  "Put db k v =
     (if accepts db k v
      then (None, db\<lparr>contents := (contents db)(k \<mapsto> v), puts := puts db @ [(k, v, True)]\<rparr>)
      else (Some WriteRejected, db\<lparr>puts := puts db @ [(k, v, False)]\<rparr>))"

text \<open>The writes that the database turned down.\<close>

definition rejected :: "database \<Rightarrow> (db_key \<times> db_value \<times> bool) list" where
  "rejected db = filter (\<lambda>e. \<not> snd (snd e)) (puts db)"

subsection \<open>Chain records of package core\<close>

text \<open>
  Modelled from the spec: \<^verbatim>\<open>core.WriteHeader\<close>, \<^verbatim>\<open>core.WriteTd\<close>, \<^verbatim>\<open>core.WriteCanonicalHash\<close>,
  \<^verbatim>\<open>core.WriteBodyRLP\<close> and \<^verbatim>\<open>core.WriteBlockReceipts\<close>, which light/odr.go calls and which are
  not in it. Each is one write: the header record; the total-difficulty record keyed by
  (hash, number); the canonical-hash record mapping number to hash; the body bytes under the
  body key for (hash, number); the receipts under the receipts key for (hash, number).
\<close>

definition WriteHeader :: "(header \<Rightarrow> hash) \<Rightarrow> database \<Rightarrow> header \<Rightarrow> db_error option \<times> database" where
  "WriteHeader hh db h = Put db (HeaderKey (hh h) (Uint64 (Number h))) (HeaderValue h)"

definition WriteTd :: "database \<Rightarrow> hash \<Rightarrow> 64 word \<Rightarrow> int \<Rightarrow> db_error option \<times> database" where
  "WriteTd db hash number td = Put db (TdKey hash number) (TdValue td)"

definition WriteCanonicalHash :: "database \<Rightarrow> hash \<Rightarrow> 64 word \<Rightarrow> db_error option \<times> database" where
  "WriteCanonicalHash db hash number = Put db (CanonicalHashKey number) (HashValue hash)"

definition WriteBodyRLP :: "database \<Rightarrow> hash \<Rightarrow> 64 word \<Rightarrow> slice \<Rightarrow> db_error option \<times> database" where
  "WriteBodyRLP db hash number rlp = Put db (BodyKey hash number) (RawValue rlp)"

definition WriteBlockReceipts ::
  "database \<Rightarrow> hash \<Rightarrow> 64 word \<Rightarrow> receipt list \<Rightarrow> db_error option \<times> database" where
  "WriteBlockReceipts db hash number receipts = Put db (ReceiptsKey hash number) (ReceiptsValue receipts)"

subsection \<open>Trie identities\<close>

record TrieID =
  BlockHash :: hash
  Root :: hash
  BlockNumber :: "64 word"
  AccKey :: bytes

definition StateTrieID :: "(header \<Rightarrow> hash) \<Rightarrow> header \<Rightarrow> TrieID" where
  "StateTrieID hh h =
     \<lparr>BlockHash = hh h,
      Root = header.Root h,
      BlockNumber = Uint64 (header.Number h),
      AccKey = []\<rparr>"

definition StorageTrieID :: "TrieID \<Rightarrow> hash \<Rightarrow> hash \<Rightarrow> TrieID" where
  "StorageTrieID state addrHash root =
     \<lparr>BlockHash = BlockHash state,
      Root = root,
      BlockNumber = BlockNumber state,
      AccKey = addrHash\<rparr>"

subsection \<open>Requests and their store routines\<close>

text \<open>
  Each request is a struct; the embedded \<^verbatim>\<open>OdrRequest\<close> interface value is never read.
  \<^verbatim>\<open>StoreResult\<close> returns nothing in Go and changes the database, so here it returns the
  database afterwards; what the calls of \<^verbatim>\<open>Put\<close> and of the writers of package core return
  is dropped, as in the source. \<open>K\<close> is \<^verbatim>\<open>crypto.Keccak256\<close>, a function of the bytes it
  is given.
\<close>

record TrieRequest =
  Id' :: TrieID
  Key :: bytes
  Proof :: "slice list"

fun storeProof :: "(bytes \<Rightarrow> bytes) \<Rightarrow> database \<Rightarrow> slice list \<Rightarrow> database" where
  "storeProof K db [] = db"
| "storeProof K db (buf # rest) =
     (let hash = K (bytes_of buf);
          val = Get db (ContentKey hash)
      in storeProof K
           (if is_nil val then snd (Put db (ContentKey hash) (RawValue buf)) else db) rest)"

definition TrieRequest_StoreResult :: "(bytes \<Rightarrow> bytes) \<Rightarrow> TrieRequest \<Rightarrow> database \<Rightarrow> database" where
  "TrieRequest_StoreResult K req db = storeProof K db (Proof req)"

record CodeRequest =
  Id' :: TrieID
  Hash :: hash
  Data :: slice

definition CodeRequest_StoreResult :: "CodeRequest \<Rightarrow> database \<Rightarrow> database" where
  "CodeRequest_StoreResult req db =
     snd (Put db (ContentKey (CodeRequest.Hash req)) (RawValue (Data req)))"

record BlockRequest =
  Hash :: hash
  Number :: "64 word"
  Rlp :: slice

definition BlockRequest_StoreResult :: "BlockRequest \<Rightarrow> database \<Rightarrow> database" where
  "BlockRequest_StoreResult req db =
     snd (WriteBodyRLP db (BlockRequest.Hash req) (BlockRequest.Number req) (Rlp req))"

record ReceiptsRequest =
  Hash :: hash
  Number :: "64 word"
  Receipts :: "receipt list"

definition ReceiptsRequest_StoreResult :: "ReceiptsRequest \<Rightarrow> database \<Rightarrow> database" where
  "ReceiptsRequest_StoreResult req db =
     snd (WriteBlockReceipts db (ReceiptsRequest.Hash req) (ReceiptsRequest.Number req) (Receipts req))"

record ChtRequest =
  ChtNum :: "64 word"
  BlockNum :: "64 word"
  ChtRoot :: hash
  Header :: header
  Td :: int
  Proof :: "slice list"

definition ChtRequest_StoreResult :: "(header \<Rightarrow> hash) \<Rightarrow> ChtRequest \<Rightarrow> database \<Rightarrow> database" where
  "ChtRequest_StoreResult hh req db =
     (let db1 = snd (WriteHeader hh db (Header req));
          hash = hh (Header req);
          num = Uint64 (header.Number (Header req));
          db2 = snd (WriteTd db1 hash num (Td req));
          db3 = snd (WriteCanonicalHash db2 hash num)
      in db3)"

text \<open>The interface \<^verbatim>\<open>OdrRequest\<close> with its five implementations.\<close>

datatype OdrRequest =
    TrieReq TrieRequest
  | CodeReq CodeRequest
  | BlockReq BlockRequest
  | ReceiptsReq ReceiptsRequest
  | ChtReq ChtRequest

fun StoreResult :: "(bytes \<Rightarrow> bytes) \<Rightarrow> (header \<Rightarrow> hash) \<Rightarrow> OdrRequest \<Rightarrow> database \<Rightarrow> database" where
  "StoreResult K hh (TrieReq req) db = TrieRequest_StoreResult K req db"
| "StoreResult K hh (CodeReq req) db = CodeRequest_StoreResult req db"
| "StoreResult K hh (BlockReq req) db = BlockRequest_StoreResult req db"
| "StoreResult K hh (ReceiptsReq req) db = ReceiptsRequest_StoreResult req db"
| "StoreResult K hh (ChtReq req) db = ChtRequest_StoreResult hh req db"

subsection \<open>The retrieval backend\<close>

text \<open>
  Modelled from the spec: \<^verbatim>\<open>OdrBackend.Retrieve\<close>, of which light/odr.go has the interface
  only. The spec's contract (sections 4.4 and 7): on deadline exceeded, context cancelled,
  no peer able to supply an answer, or proof verification failure, no store routine is
  invoked and nothing is written; otherwise the request's store routine is invoked exactly
  once against the backend's database, and a store failure, the database rejecting a
  write, is propagated to the caller. The store routine is \<open>StoreResult\<close> above.

  \<open>ctx\<close> is the state of the context when \<^verbatim>\<open>Retrieve\<close> is called. \<open>net\<close> is the network
  phase: for a request it gives the failure, or the request with its answer fields filled
  in and accepted. \<^verbatim>\<open>Retrieve\<close> returns one error; the result keeps the kinds of section 7
  apart: \<open>err\<close> is the retrieval or verification failure, \<open>store_err\<close> the store failure,
  and at most one of them is set. \<open>stored\<close> are the requests whose store routine was
  invoked, \<open>db_after\<close> is the database afterwards.
\<close>

datatype retrieve_error = ErrCancelled | ErrDeadlineExceeded | ErrNoPeer | ErrVerification

datatype ctx_state = Live | CtxCancelled | CtxDeadlineExceeded

datatype reply = Failed retrieve_error | Accepted OdrRequest

record retrieval =
  err :: "retrieve_error option"
  store_err :: "db_error option"
  stored :: "OdrRequest list"
  db_after :: database

definition Retrieve ::
  "(bytes \<Rightarrow> bytes) \<Rightarrow> (header \<Rightarrow> hash) \<Rightarrow> database \<Rightarrow> (OdrRequest \<Rightarrow> reply)
     \<Rightarrow> ctx_state \<Rightarrow> OdrRequest \<Rightarrow> retrieval" where
  "Retrieve K hh db net ctx req =
     (case ctx of
        CtxCancelled \<Rightarrow>
          \<lparr>err = Some ErrCancelled, store_err = None, stored = [], db_after = db\<rparr>
      | CtxDeadlineExceeded \<Rightarrow>
          \<lparr>err = Some ErrDeadlineExceeded, store_err = None, stored = [], db_after = db\<rparr>
      | Live \<Rightarrow>
          (case net req of
             Failed e \<Rightarrow> \<lparr>err = Some e, store_err = None, stored = [], db_after = db\<rparr>
           | Accepted answered \<Rightarrow>
               (let db' = StoreResult K hh answered db
                in \<lparr>err = None,
                    store_err = (if rejected db' = rejected db then None else Some WriteRejected),
                    stored = [answered],
                    db_after = db'\<rparr>)))"

subsection \<open>A proof node at rest\<close>

text \<open>
  A node is settled in a database when \<open>storeProof\<close> would not change the contents for it:
  its key holds a value that is not \<^verbatim>\<open>nil\<close>, or the database turns the write down, or the
  node is \<^verbatim>\<open>nil\<close> and so is what its key holds.
\<close>

definition settled :: "(bytes \<Rightarrow> bytes) \<Rightarrow> database \<Rightarrow> slice \<Rightarrow> bool" where
  "settled K db buf =
     (\<not> is_nil (contents db (ContentKey (K (bytes_of buf))))
      \<or> \<not> accepts db (ContentKey (K (bytes_of buf))) (RawValue buf)
      \<or> (buf = None \<and> contents db (ContentKey (K (bytes_of buf))) = Some (RawValue None)))"

subsection \<open>Example databases\<close>

text \<open>
  An empty database that takes every write, an empty one that takes none, and one that
  takes every write and holds a \<^verbatim>\<open>nil\<close> slice under the content key \<open>[7]\<close>.
\<close>

definition mem_db :: database where
  "mem_db = \<lparr>contents = Map.empty, accepts = (\<lambda>k v. True), puts = []\<rparr>"



section \<open>Properties\<close>

subsection \<open>What one write does\<close>

lemma accepts_Put: "accepts (snd (Put db k v)) = accepts db"
  by (simp add: Put_def)

lemma contents_Put:
  "contents (snd (Put db k v)) = (if accepts db k v then (contents db)(k \<mapsto> v) else contents db)"
  by (simp add: Put_def)

lemma puts_Put: "puts (snd (Put db k v)) = puts db @ [(k, v, accepts db k v)]"
  by (simp add: Put_def)

lemma rejected_Put:
  "rejected (snd (Put db k v)) = (if accepts db k v then rejected db else rejected db @ [(k, v, False)])"
  by (simp add: Put_def rejected_def)

lemma Put_twice: "contents (snd (Put (snd (Put db k v)) k v)) = contents (snd (Put db k v))"
  by (simp add: contents_Put accepts_Put)

lemma is_nil_iff: "is_nil x \<longleftrightarrow> x = None \<or> x = Some (RawValue None)"
  by (cases x rule: is_nil.cases) simp_all

subsection \<open>The proof store\<close>

text \<open>One turn of the loop of \<open>storeProof\<close>.\<close>

lemma storeProof_Cons:
  "storeProof K db (buf # rest) =
     storeProof K
       (if is_nil (Get db (ContentKey (K (bytes_of buf))))
        then snd (Put db (ContentKey (K (bytes_of buf))) (RawValue buf)) else db) rest"
  by (simp add: Let_def)

lemma storeProof_append: "storeProof K db (xs @ ys) = storeProof K (storeProof K db xs) ys"
  by (induction xs arbitrary: db) (simp_all add: Let_def)

lemma storeProof_snoc:
  "storeProof K db (xs @ [b]) =
     (if is_nil (Get (storeProof K db xs) (ContentKey (K (bytes_of b))))
      then snd (Put (storeProof K db xs) (ContentKey (K (bytes_of b))) (RawValue b))
      else storeProof K db xs)"
  by (simp add: storeProof_append Let_def)

lemma accepts_storeProof: "accepts (storeProof K db nodes) = accepts db"
  by (induction nodes arbitrary: db) (simp_all add: Let_def accepts_Put)


lemma settled_step_keeps:
  assumes "settled K db buf"
  shows "settled K (if is_nil (Get db (ContentKey (K (bytes_of c))))
           then snd (Put db (ContentKey (K (bytes_of c))) (RawValue c)) else db) buf"
  using assms
  by (cases c) (auto simp: settled_def Get_def contents_Put accepts_Put is_nil_iff)

lemma settled_storeProof: "settled K db buf \<Longrightarrow> settled K (storeProof K db nodes) buf"
proof (induction nodes arbitrary: db)
  case Nil
  then show ?case by simp
next
  case (Cons c rest)
  from Cons.IH [OF settled_step_keeps [OF Cons.prems, of c]] show ?case
    by (simp add: Let_def)
qed

lemma settled_step:
  "settled K (if is_nil (Get db (ContentKey (K (bytes_of buf))))
     then snd (Put db (ContentKey (K (bytes_of buf))) (RawValue buf)) else db) buf"
  by (cases buf) (auto simp: settled_def Get_def contents_Put accepts_Put is_nil_iff)

lemma storeProof_settles: "buf \<in> set nodes \<Longrightarrow> settled K (storeProof K db nodes) buf"
proof (induction nodes arbitrary: db)
  case Nil
  then show ?case by simp
next
  case (Cons a rest)
  show ?case
  proof (cases "buf = a")
    case True
    then show ?thesis
      using settled_storeProof [OF settled_step, of K db a rest] by (simp add: Let_def)
  next
    case False
    with Cons.prems have "buf \<in> set rest" by simp
    from Cons.IH [OF this] show ?thesis by (simp add: Let_def)
  qed
qed

lemma settled_step_contents:
  assumes "settled K db a"
  shows "contents (if is_nil (Get db (ContentKey (K (bytes_of a))))
           then snd (Put db (ContentKey (K (bytes_of a))) (RawValue a)) else db) = contents db"
  using assms
  by (auto simp: settled_def Get_def contents_Put fun_eq_iff)

lemma storeProof_settled_contents:
  "(\<And>buf. buf \<in> set nodes \<Longrightarrow> settled K db buf) \<Longrightarrow> contents (storeProof K db nodes) = contents db"
proof (induction nodes arbitrary: db)
  case Nil
  then show ?case by simp
next
  case (Cons a rest)
  let ?db = "if is_nil (Get db (ContentKey (K (bytes_of a))))
     then snd (Put db (ContentKey (K (bytes_of a))) (RawValue a)) else db"
  have a: "settled K db a" using Cons.prems by simp
  then have c: "contents ?db = contents db"
    by (rule settled_step_contents)
  have acc: "accepts ?db = accepts db" by (simp add: accepts_Put)
  have "\<And>buf. buf \<in> set rest \<Longrightarrow> settled K ?db buf"
    using Cons.prems c acc unfolding settled_def by (metis list.set_intros(2))
  from Cons.IH [OF this] c show ?case by (simp add: Let_def)
qed

lemma storeProof_twice:
  "contents (storeProof K (storeProof K db nodes) nodes) = contents (storeProof K db nodes)"
  by (rule storeProof_settled_contents) (rule storeProof_settles)

lemma rejected_storeProof:
  "(\<And>k v. accepts db k v) \<Longrightarrow> rejected (storeProof K db nodes) = rejected db"
  by (induction nodes arbitrary: db) (simp_all add: Let_def rejected_Put accepts_Put)






subsection \<open>The store routines\<close>

lemma accepts_StoreResult: "accepts (StoreResult K hh req db) = accepts db"
  by (cases req)
    (simp_all add: TrieRequest_StoreResult_def CodeRequest_StoreResult_def
      BlockRequest_StoreResult_def ReceiptsRequest_StoreResult_def ChtRequest_StoreResult_def
      WriteBodyRLP_def WriteBlockReceipts_def WriteHeader_def WriteTd_def WriteCanonicalHash_def
      Let_def accepts_Put accepts_storeProof)

lemma contents_ChtRequest_StoreResult:
  "contents (ChtRequest_StoreResult hh req db) =
     (let h = hh (Header req); n = Uint64 (header.Number (Header req));
          m1 = (if accepts db (HeaderKey h n) (HeaderValue (Header req))
                then (contents db)(HeaderKey h n \<mapsto> HeaderValue (Header req)) else contents db);
          m2 = (if accepts db (TdKey h n) (TdValue (Td req))
                then m1(TdKey h n \<mapsto> TdValue (Td req)) else m1)
      in if accepts db (CanonicalHashKey n) (HashValue h)
         then m2(CanonicalHashKey n \<mapsto> HashValue h) else m2)"
  by (simp add: ChtRequest_StoreResult_def WriteHeader_def WriteTd_def WriteCanonicalHash_def
      Let_def contents_Put accepts_Put)

lemma accepts_ChtRequest_StoreResult: "accepts (ChtRequest_StoreResult hh req db) = accepts db"
  using accepts_StoreResult [of K hh "ChtReq req" db] by simp

lemma puts_ChtRequest_StoreResult:
  "puts (ChtRequest_StoreResult hh req db) =
     puts db @
     [(HeaderKey (hh (Header req)) (Uint64 (header.Number (Header req))), HeaderValue (Header req),
         accepts db (HeaderKey (hh (Header req)) (Uint64 (header.Number (Header req))))
           (HeaderValue (Header req))),
      (TdKey (hh (Header req)) (Uint64 (header.Number (Header req))), TdValue (Td req),
         accepts db (TdKey (hh (Header req)) (Uint64 (header.Number (Header req)))) (TdValue (Td req))),
      (CanonicalHashKey (Uint64 (header.Number (Header req))), HashValue (hh (Header req)),
         accepts db (CanonicalHashKey (Uint64 (header.Number (Header req))))
           (HashValue (hh (Header req))))]"
  by (simp add: ChtRequest_StoreResult_def WriteHeader_def WriteTd_def WriteCanonicalHash_def
      Let_def puts_Put accepts_Put)

lemma ChtRequest_StoreResult_twice:
  "contents (ChtRequest_StoreResult hh req (ChtRequest_StoreResult hh req db)) =
   contents (ChtRequest_StoreResult hh req db)"
  by (simp add: contents_ChtRequest_StoreResult [of hh req "ChtRequest_StoreResult hh req db"]
      accepts_ChtRequest_StoreResult)
    (auto simp: contents_ChtRequest_StoreResult Let_def fun_eq_iff)

lemma rejected_StoreResult:
  "(\<And>k v. accepts db k v) \<Longrightarrow> rejected (StoreResult K hh req db) = rejected db"
  by (cases req)
    (simp_all add: TrieRequest_StoreResult_def CodeRequest_StoreResult_def
      BlockRequest_StoreResult_def ReceiptsRequest_StoreResult_def ChtRequest_StoreResult_def
      WriteBodyRLP_def WriteBlockReceipts_def WriteHeader_def WriteTd_def WriteCanonicalHash_def
      Let_def accepts_Put rejected_Put rejected_storeProof)

lemma StoreResult_twice:
  "contents (StoreResult K hh req (StoreResult K hh req db)) = contents (StoreResult K hh req db)"
  by (cases req)
    (simp_all add: TrieRequest_StoreResult_def storeProof_twice CodeRequest_StoreResult_def
      BlockRequest_StoreResult_def ReceiptsRequest_StoreResult_def
      WriteBodyRLP_def WriteBlockReceipts_def Put_twice ChtRequest_StoreResult_twice)

text \<open>
  C1: for every request variant and every database, invoking the variant's \<^verbatim>\<open>StoreResult\<close>
  twice with the same answer leaves the same contents as invoking it once. No error comes
  of it: the routine returns nothing, and on a database that takes every write no call of
  \<^verbatim>\<open>Put\<close> fails in either invocation.
\<close>

theorem StoreResult_idempotent:
  "contents (StoreResult K hh req (StoreResult K hh req db)) = contents (StoreResult K hh req db)
   \<and> ((\<forall>k v. accepts db k v) \<longrightarrow>
        rejected (StoreResult K hh req (StoreResult K hh req db)) = rejected db)"
proof (intro conjI impI)
  show "contents (StoreResult K hh req (StoreResult K hh req db)) = contents (StoreResult K hh req db)"
    by (rule StoreResult_twice)
next
  assume a: "\<forall>k v. accepts db k v"
  then have "\<And>k v. accepts (StoreResult K hh req db) k v"
    by (simp add: accepts_StoreResult)
  then have "rejected (StoreResult K hh req (StoreResult K hh req db)) =
      rejected (StoreResult K hh req db)"
    by (rule rejected_StoreResult)
  also have "\<dots> = rejected db"
    using a by (simp add: rejected_StoreResult)
  finally show "rejected (StoreResult K hh req (StoreResult K hh req db)) = rejected db" .
qed

theorem StoreResult_idempotent_witness:
  "contents (StoreResult (\<lambda>b. b) header.Root
       (ChtReq \<lparr>ChtNum = 0, BlockNum = 9, ChtRoot = [], Header = \<lparr>header.Number = 5, header.Root = [1], Rest = []\<rparr>,
                Td = 17, Proof = [Some [4]]\<rparr>)
       (StoreResult (\<lambda>b. b) header.Root
          (ChtReq \<lparr>ChtNum = 0, BlockNum = 9, ChtRoot = [], Header = \<lparr>header.Number = 5, header.Root = [1], Rest = []\<rparr>,
                   Td = 17, Proof = [Some [4]]\<rparr>) mem_db)) =
     [HeaderKey [1] 5 \<mapsto> HeaderValue \<lparr>header.Number = 5, header.Root = [1], Rest = []\<rparr>,
      TdKey [1] 5 \<mapsto> TdValue 17,
      CanonicalHashKey 5 \<mapsto> HashValue [1]]
   \<and> rejected (StoreResult (\<lambda>b. b) header.Root
       (ChtReq \<lparr>ChtNum = 0, BlockNum = 9, ChtRoot = [], Header = \<lparr>header.Number = 5, header.Root = [1], Rest = []\<rparr>,
                Td = 17, Proof = [Some [4]]\<rparr>)
       (StoreResult (\<lambda>b. b) header.Root
          (ChtReq \<lparr>ChtNum = 0, BlockNum = 9, ChtRoot = [], Header = \<lparr>header.Number = 5, header.Root = [1], Rest = []\<rparr>,
                   Td = 17, Proof = [Some [4]]\<rparr>) mem_db)) = []"
proof -
  let ?K = "\<lambda>b::bytes. b"
  let ?req = "ChtReq \<lparr>ChtNum = 0, BlockNum = 9, ChtRoot = [],
    Header = \<lparr>header.Number = 5, header.Root = [1], Rest = []\<rparr>, Td = 17, Proof = [Some [4]]\<rparr>"
  have a: "\<forall>k v. accepts mem_db k v"
    by (simp add: mem_db_def)
  have r: "rejected mem_db = []"
    by (simp add: mem_db_def rejected_def)
  have once: "contents (StoreResult ?K header.Root ?req mem_db) =
     [HeaderKey [1] 5 \<mapsto> HeaderValue \<lparr>header.Number = 5, header.Root = [1], Rest = []\<rparr>,
      TdKey [1] 5 \<mapsto> TdValue 17,
      CanonicalHashKey 5 \<mapsto> HashValue [1]]"
    by (simp add: contents_ChtRequest_StoreResult mem_db_def Uint64_def Let_def)
  from StoreResult_idempotent [of ?K header.Root ?req mem_db] a r once
  show ?thesis by simp
qed

text \<open>
  C8: \<^verbatim>\<open>CodeRequest.StoreResult\<close> writes the carried code bytes under the carried code hash
  unconditionally: for every database (whatever is under that key) one \<^verbatim>\<open>Put\<close> of the data
  under the hash is issued, and when the database takes it, reading the hash gives the data.
\<close>

theorem CodeRequest_StoreResult_writes:
  "puts (CodeRequest_StoreResult req db) =
     puts db @ [(ContentKey (CodeRequest.Hash req), RawValue (Data req),
                 accepts db (ContentKey (CodeRequest.Hash req)) (RawValue (Data req)))]
   \<and> (accepts db (ContentKey (CodeRequest.Hash req)) (RawValue (Data req)) \<longrightarrow>
        Get (CodeRequest_StoreResult req db) (ContentKey (CodeRequest.Hash req)) =
          Some (RawValue (Data req)))"
  by (simp add: CodeRequest_StoreResult_def puts_Put Get_def contents_Put)

theorem CodeRequest_StoreResult_writes_witness:
  "Get (CodeRequest_StoreResult
       \<lparr>Id' = \<lparr>BlockHash = [], Root = [], BlockNumber = 0, AccKey = []\<rparr>,
        CodeRequest.Hash = [1, 2], Data = Some [3]\<rparr>
       (mem_db\<lparr>contents := [ContentKey [1, 2] \<mapsto> RawValue (Some [4])]\<rparr>))
     (ContentKey [1, 2]) = Some (RawValue (Some [3]))"
  using CodeRequest_StoreResult_writes [of
      "\<lparr>Id' = \<lparr>BlockHash = [], Root = [], BlockNumber = 0, AccKey = []\<rparr>,
        CodeRequest.Hash = [1, 2], Data = Some [3]\<rparr>"
      "mem_db\<lparr>contents := [ContentKey [1, 2] \<mapsto> RawValue (Some [4])]\<rparr>"]
  by (simp add: mem_db_def)

text \<open>
  C10: what \<^verbatim>\<open>TrieRequest.StoreResult\<close> does to the database depends on the request's
  \<^verbatim>\<open>Proof\<close> only: two requests with equal \<^verbatim>\<open>Proof\<close>, whatever their \<^verbatim>\<open>Id\<close> and \<^verbatim>\<open>Key\<close>,
  give the same database, and an empty \<^verbatim>\<open>Proof\<close> leaves the database as it was.
\<close>

theorem TrieRequest_StoreResult_depends:
  "(TrieRequest.Proof r1 = TrieRequest.Proof r2 \<longrightarrow>
      TrieRequest_StoreResult K r1 db = TrieRequest_StoreResult K r2 db)
   \<and> (TrieRequest.Proof r = [] \<longrightarrow> TrieRequest_StoreResult K r db = db)"
  by (simp add: TrieRequest_StoreResult_def)

theorem TrieRequest_StoreResult_depends_witness:
  "TrieRequest_StoreResult id
       \<lparr>TrieRequest.Id' = \<lparr>BlockHash = [1], Root = [2], BlockNumber = 5, AccKey = []\<rparr>, Key = [6],
        TrieRequest.Proof = [Some [7], Some [8]]\<rparr> mem_db =
   TrieRequest_StoreResult id
       \<lparr>TrieRequest.Id' = \<lparr>BlockHash = [3], Root = [4], BlockNumber = 9, AccKey = [1]\<rparr>, Key = [],
        TrieRequest.Proof = [Some [7], Some [8]]\<rparr> mem_db
   \<and> TrieRequest_StoreResult id
       \<lparr>TrieRequest.Id' = \<lparr>BlockHash = [1], Root = [2], BlockNumber = 5, AccKey = []\<rparr>, Key = [6],
        TrieRequest.Proof = []\<rparr> mem_db = mem_db"
proof -
  let ?r1 = "\<lparr>TrieRequest.Id' = \<lparr>BlockHash = [1], Root = [2], BlockNumber = 5, AccKey = []\<rparr>, Key = [6],
        TrieRequest.Proof = [Some [7], Some [8]]\<rparr>"
  let ?r2 = "\<lparr>TrieRequest.Id' = \<lparr>BlockHash = [3], Root = [4], BlockNumber = 9, AccKey = [1]\<rparr>, Key = [],
        TrieRequest.Proof = [Some [7], Some [8]]\<rparr>"
  let ?r = "\<lparr>TrieRequest.Id' = \<lparr>BlockHash = [1], Root = [2], BlockNumber = 5, AccKey = []\<rparr>, Key = [6],
        TrieRequest.Proof = []\<rparr>"
  have h: "TrieRequest.Proof ?r1 = TrieRequest.Proof ?r2" and e: "TrieRequest.Proof ?r = []"
    by simp_all
  from TrieRequest_StoreResult_depends [of ?r1 ?r2 id mem_db ?r] h e
  show ?thesis by blast
qed

text \<open>
  C4: \<^verbatim>\<open>ChtRequest.StoreResult\<close> issues three writes, in this order: the header record, the
  total-difficulty record keyed by (hash, number), and the canonical-hash record mapping
  number to hash, where the number is the header's number read by \<^verbatim>\<open>Uint64()\<close>. Afterwards
  the canonical-hash record for that number holds the header's hash and the
  total-difficulty record for (hash, number) holds the carried \<^verbatim>\<open>Td\<close>, each when the
  database took the write.
\<close>

theorem ChtRequest_StoreResult_three_writes:
  "(let h = hh (Header req);
        n = Uint64 (header.Number (Header req));
        db' = ChtRequest_StoreResult hh req db
    in puts db' =
         puts db @
         [(HeaderKey h n, HeaderValue (Header req), accepts db (HeaderKey h n) (HeaderValue (Header req))),
          (TdKey h n, TdValue (Td req), accepts db (TdKey h n) (TdValue (Td req))),
          (CanonicalHashKey n, HashValue h, accepts db (CanonicalHashKey n) (HashValue h))]
       \<and> (accepts db (CanonicalHashKey n) (HashValue h) \<longrightarrow>
            Get db' (CanonicalHashKey n) = Some (HashValue h))
       \<and> (accepts db (TdKey h n) (TdValue (Td req)) \<longrightarrow>
            Get db' (TdKey h n) = Some (TdValue (Td req))))"
  by (simp add: Let_def puts_ChtRequest_StoreResult Get_def contents_ChtRequest_StoreResult)

theorem ChtRequest_StoreResult_three_writes_witness:
  "puts (ChtRequest_StoreResult (\<lambda>h. header.Root h @ Rest h)
       \<lparr>ChtNum = 0, BlockNum = 9, ChtRoot = [],
        Header = \<lparr>header.Number = 5, header.Root = [1], Rest = [2]\<rparr>, Td = 17, Proof = [Some [4]]\<rparr> mem_db) =
     [(HeaderKey [1, 2] 5, HeaderValue \<lparr>header.Number = 5, header.Root = [1], Rest = [2]\<rparr>, True),
      (TdKey [1, 2] 5, TdValue 17, True),
      (CanonicalHashKey 5, HashValue [1, 2], True)]
   \<and> Get (ChtRequest_StoreResult (\<lambda>h. header.Root h @ Rest h)
       \<lparr>ChtNum = 0, BlockNum = 9, ChtRoot = [],
        Header = \<lparr>header.Number = 5, header.Root = [1], Rest = [2]\<rparr>, Td = 17, Proof = [Some [4]]\<rparr> mem_db)
       (CanonicalHashKey 5) = Some (HashValue [1, 2])
   \<and> Get (ChtRequest_StoreResult (\<lambda>h. header.Root h @ Rest h)
       \<lparr>ChtNum = 0, BlockNum = 9, ChtRoot = [],
        Header = \<lparr>header.Number = 5, header.Root = [1], Rest = [2]\<rparr>, Td = 17, Proof = [Some [4]]\<rparr> mem_db)
       (TdKey [1, 2] 5) = Some (TdValue 17)"
  using ChtRequest_StoreResult_three_writes [of "\<lambda>h. header.Root h @ Rest h"
      "\<lparr>ChtNum = 0, BlockNum = 9, ChtRoot = [],
        Header = \<lparr>header.Number = 5, header.Root = [1], Rest = [2]\<rparr>, Td = 17, Proof = [Some [4]]\<rparr>" mem_db]
  by (simp add: Let_def mem_db_def Uint64_def)

text \<open>
  C9: what \<^verbatim>\<open>ChtRequest.StoreResult\<close> does to the database depends on the request's
  \<^verbatim>\<open>Header\<close> and \<^verbatim>\<open>Td\<close> only: two requests with equal \<^verbatim>\<open>Header\<close> and \<^verbatim>\<open>Td\<close>, whatever
  their \<^verbatim>\<open>ChtNum\<close>, \<^verbatim>\<open>BlockNum\<close>, \<^verbatim>\<open>ChtRoot\<close> and \<^verbatim>\<open>Proof\<close>, give the same database. The keys
  written are made of the header's own hash and number, and nothing changes under any
  content key, so no proof node is stored.
\<close>

theorem ChtRequest_StoreResult_depends:
  "(Header r1 = Header r2 \<and> Td r1 = Td r2 \<longrightarrow>
      ChtRequest_StoreResult hh r1 db = ChtRequest_StoreResult hh r2 db)
   \<and> map fst (drop (length (puts db)) (puts (ChtRequest_StoreResult hh r1 db))) =
       [HeaderKey (hh (Header r1)) (Uint64 (header.Number (Header r1))),
        TdKey (hh (Header r1)) (Uint64 (header.Number (Header r1))),
        CanonicalHashKey (Uint64 (header.Number (Header r1)))]
   \<and> contents (ChtRequest_StoreResult hh r1 db) (ContentKey c) = contents db (ContentKey c)"
  by (simp add: puts_ChtRequest_StoreResult contents_ChtRequest_StoreResult Let_def)
    (simp add: ChtRequest_StoreResult_def)

theorem ChtRequest_StoreResult_depends_witness:
  "ChtRequest_StoreResult (\<lambda>h. header.Root h @ Rest h)
       \<lparr>ChtNum = 0, BlockNum = 9, ChtRoot = [],
        Header = \<lparr>header.Number = 5, header.Root = [1], Rest = [2]\<rparr>, Td = 17, Proof = [Some [4]]\<rparr> mem_db =
   ChtRequest_StoreResult (\<lambda>h. header.Root h @ Rest h)
       \<lparr>ChtNum = 3, BlockNum = 6, ChtRoot = [8],
        Header = \<lparr>header.Number = 5, header.Root = [1], Rest = [2]\<rparr>, Td = 17, Proof = []\<rparr> mem_db
   \<and> contents (ChtRequest_StoreResult (\<lambda>h. header.Root h @ Rest h)
       \<lparr>ChtNum = 0, BlockNum = 9, ChtRoot = [],
        Header = \<lparr>header.Number = 5, header.Root = [1], Rest = [2]\<rparr>, Td = 17, Proof = [Some [4]]\<rparr> mem_db)
       (ContentKey [4]) = None"
proof -
  let ?hh = "\<lambda>h. header.Root h @ Rest h"
  let ?r1 = "\<lparr>ChtNum = 0, BlockNum = 9, ChtRoot = [],
        Header = \<lparr>header.Number = 5, header.Root = [1], Rest = [2]\<rparr>, Td = 17, Proof = [Some [4]]\<rparr>"
  let ?r2 = "\<lparr>ChtNum = 3, BlockNum = 6, ChtRoot = [8],
        Header = \<lparr>header.Number = 5, header.Root = [1], Rest = [2]\<rparr>, Td = 17, Proof = []\<rparr>"
  have h: "Header ?r1 = Header ?r2 \<and> Td ?r1 = Td ?r2"
    by simp
  have e: "contents mem_db (ContentKey [4]) = None"
    by (simp add: mem_db_def)
  from ChtRequest_StoreResult_depends [of ?r1 ?r2 ?hh mem_db "[4]"] h
  have "ChtRequest_StoreResult ?hh ?r1 mem_db = ChtRequest_StoreResult ?hh ?r2 mem_db"
    and "contents (ChtRequest_StoreResult ?hh ?r1 mem_db) (ContentKey [4]) =
      contents mem_db (ContentKey [4])"
    by blast+
  with e show ?thesis by simp
qed

subsection \<open>Trie identities\<close>

lemma uint_Uint64: "uint (Uint64 x) = \<bar>x\<bar> mod 2 ^ 64"
  by (simp add: Uint64_def uint_word_of_int)

text \<open>
  The claim C6 as stated, that the block number of \<open>StateTrieID\<close> is the header's number
  for every header, fails for a header whose number is \<open>2 ^ 64\<close>: the block number is a
  64-bit value, here 0.
\<close>

theorem StateTrieID_number_counterexample:
  "BlockNumber (StateTrieID header.Root
       \<lparr>header.Number = 18446744073709551616, header.Root = [], Rest = []\<rparr>) = 0
   \<and> uint (BlockNumber (StateTrieID header.Root
       \<lparr>header.Number = 18446744073709551616, header.Root = [], Rest = []\<rparr>))
     \<noteq> header.Number \<lparr>header.Number = 18446744073709551616, header.Root = [], Rest = []\<rparr>"
  by (simp add: StateTrieID_def Uint64_def)

text \<open>
  C6, amended: for every header \<open>H\<close>, \<open>StateTrieID\<close> returns, without any failure case, the
  identity whose block hash is the hash of \<open>H\<close>, whose root is the state root of \<open>H\<close>, whose
  account key is empty, and whose block number is the number of \<open>H\<close> read by \<^verbatim>\<open>Uint64()\<close>:
  its magnitude modulo \<open>2 ^ 64\<close>, which is the number of \<open>H\<close> whenever that lies between 0
  and \<open>2 ^ 64 - 1\<close>.
\<close>

theorem StateTrieID_fields:
  "StateTrieID hh H =
     \<lparr>BlockHash = hh H, Root = header.Root H, BlockNumber = Uint64 (header.Number H), AccKey = []\<rparr>
   \<and> uint (BlockNumber (StateTrieID hh H)) = \<bar>header.Number H\<bar> mod 2 ^ 64
   \<and> (0 \<le> header.Number H \<and> header.Number H < 2 ^ 64 \<longrightarrow>
        uint (BlockNumber (StateTrieID hh H)) = header.Number H)"
  by (simp add: StateTrieID_def uint_Uint64)

theorem StateTrieID_fields_witness:
  "StateTrieID (\<lambda>h. header.Root h @ Rest h) \<lparr>header.Number = 5, header.Root = [7], Rest = [1]\<rparr> =
     \<lparr>BlockHash = [7, 1], Root = [7], BlockNumber = 5, AccKey = []\<rparr>
   \<and> uint (BlockNumber (StateTrieID (\<lambda>h. header.Root h @ Rest h)
        \<lparr>header.Number = 5, header.Root = [7], Rest = [1]\<rparr>)) = 5"
  using StateTrieID_fields [of "\<lambda>h. header.Root h @ Rest h"
      "\<lparr>header.Number = 5, header.Root = [7], Rest = [1]\<rparr>"]
  by (simp add: Uint64_def)

text \<open>
  C7: for every state identity, account key hash and storage root, \<open>StorageTrieID\<close> returns,
  with no check and no failure case, the identity that takes block hash and block number
  from the state identity, has the given account key hash as account key and the given
  storage root as root. Equal inputs give equal results; the root and account key of the
  state identity play no part.
\<close>

theorem StorageTrieID_fields:
  "StorageTrieID state addrHash root =
     \<lparr>BlockHash = BlockHash state, Root = root, BlockNumber = BlockNumber state, AccKey = addrHash\<rparr>
   \<and> (BlockHash state = BlockHash state' \<and> BlockNumber state = BlockNumber state'
        \<and> addrHash = addrHash' \<and> root = root' \<longrightarrow>
        StorageTrieID state addrHash root = StorageTrieID state' addrHash' root')"
  by (simp add: StorageTrieID_def)

theorem StorageTrieID_fields_witness:
  "StorageTrieID \<lparr>BlockHash = [1], Root = [2], BlockNumber = 5, AccKey = []\<rparr> [3] [4] =
     \<lparr>BlockHash = [1], Root = [4], BlockNumber = 5, AccKey = [3]\<rparr>
   \<and> StorageTrieID \<lparr>BlockHash = [1], Root = [2], BlockNumber = 5, AccKey = []\<rparr> [3] [4] =
      StorageTrieID \<lparr>BlockHash = [1], Root = [9], BlockNumber = 5, AccKey = [8]\<rparr> [3] [4]"
proof -
  let ?s = "\<lparr>BlockHash = [1], Root = [2], BlockNumber = 5, AccKey = []\<rparr>"
  let ?s' = "\<lparr>BlockHash = [1], Root = [9], BlockNumber = 5, AccKey = [8]\<rparr>"
  have h: "BlockHash ?s = BlockHash ?s' \<and> BlockNumber ?s = BlockNumber ?s'
      \<and> [3::8 word] = [3] \<and> [4::8 word] = [4]"
    by simp
  have e: "\<lparr>BlockHash = BlockHash ?s, Root = [4], BlockNumber = BlockNumber ?s, AccKey = [3]\<rparr> =
      \<lparr>BlockHash = [1], Root = [4], BlockNumber = 5, AccKey = [3]\<rparr>"
    by simp
  from StorageTrieID_fields [of ?s "[3]" "[4]" ?s' "[3]" "[4]"] h
  have "StorageTrieID ?s [3] [4] =
      \<lparr>BlockHash = BlockHash ?s, Root = [4], BlockNumber = BlockNumber ?s, AccKey = [3]\<rparr>
    \<and> StorageTrieID ?s [3] [4] = StorageTrieID ?s' [3] [4]"
    by blast
  with e show ?thesis by metis
qed

subsection \<open>The retrieval backend\<close>

text \<open>
  C3: for every request and every context, if \<open>Retrieve\<close> fails then no store routine was
  invoked and the database is as it was; every failure condition (context cancelled,
  deadline exceeded, no peer, verification failure) makes it fail; with a context that is
  cancelled before the call the cancellation error is returned.
\<close>

theorem Retrieve_failure_stores_nothing:
  "(err (Retrieve K hh db net ctx req) \<noteq> None \<longrightarrow>
      stored (Retrieve K hh db net ctx req) = [] \<and> db_after (Retrieve K hh db net ctx req) = db)
   \<and> (ctx \<noteq> Live \<or> (\<exists>e. net req = Failed e) \<longrightarrow> err (Retrieve K hh db net ctx req) \<noteq> None)
   \<and> (ctx = CtxCancelled \<longrightarrow> err (Retrieve K hh db net ctx req) = Some ErrCancelled)"
  by (auto simp: Retrieve_def Let_def split: ctx_state.splits reply.splits)

theorem Retrieve_failure_stores_nothing_witness:
  "Retrieve (\<lambda>b. b) header.Root mem_db Accepted CtxCancelled
       (CodeReq \<lparr>Id' = \<lparr>BlockHash = [], Root = [], BlockNumber = 0, AccKey = []\<rparr>,
          CodeRequest.Hash = [1, 2], Data = Some [3]\<rparr>) =
     \<lparr>err = Some ErrCancelled, store_err = None, stored = [], db_after = mem_db\<rparr>
   \<and> Retrieve (\<lambda>b. b) header.Root mem_db (\<lambda>r. Failed ErrVerification) Live
       (CodeReq \<lparr>Id' = \<lparr>BlockHash = [], Root = [], BlockNumber = 0, AccKey = []\<rparr>,
          CodeRequest.Hash = [1, 2], Data = Some [3]\<rparr>) =
     \<lparr>err = Some ErrVerification, store_err = None, stored = [], db_after = mem_db\<rparr>"
proof -
  let ?K = "\<lambda>b::bytes. b"
  let ?req = "CodeReq \<lparr>Id' = \<lparr>BlockHash = [], Root = [], BlockNumber = 0, AccKey = []\<rparr>,
          CodeRequest.Hash = [1, 2], Data = Some [3]\<rparr>"
  let ?a = "Retrieve ?K header.Root mem_db Accepted CtxCancelled ?req"
  let ?b = "Retrieve ?K header.Root mem_db (\<lambda>r. Failed ErrVerification) Live ?req"
  have ea: "err ?a = Some ErrCancelled"
    using Retrieve_failure_stores_nothing [of ?K header.Root mem_db Accepted CtxCancelled ?req]
    by blast
  then have "err ?a \<noteq> None" by simp
  then have "stored ?a = [] \<and> db_after ?a = mem_db"
    using Retrieve_failure_stores_nothing [of ?K header.Root mem_db Accepted CtxCancelled ?req]
    by blast
  moreover have "store_err ?a = None"
    by (simp add: Retrieve_def)
  ultimately have a: "?a = \<lparr>err = Some ErrCancelled, store_err = None, stored = [], db_after = mem_db\<rparr>"
    using ea by (cases ?a) simp
  have eb: "err ?b = Some ErrVerification"
    by (simp add: Retrieve_def)
  have "ctx_state.Live \<noteq> Live \<or> (\<exists>e. (\<lambda>r. Failed ErrVerification) ?req = Failed e)"
    by simp
  then have "err ?b \<noteq> None"
    using Retrieve_failure_stores_nothing
      [of ?K header.Root mem_db "\<lambda>r. Failed ErrVerification" Live ?req]
    by blast
  then have "stored ?b = [] \<and> db_after ?b = mem_db"
    using Retrieve_failure_stores_nothing
      [of ?K header.Root mem_db "\<lambda>r. Failed ErrVerification" Live ?req]
    by blast
  moreover have "store_err ?b = None"
    by (simp add: Retrieve_def)
  ultimately have b: "?b = \<lparr>err = Some ErrVerification, store_err = None, stored = [], db_after = mem_db\<rparr>"
    using eb by (cases ?b) simp
  from a b show ?thesis by blast
qed


subsection \<open>The writes a store routine issues\<close>

text \<open>
  Every store routine issues each of its writes once, in order, whatever the outcome of
  the one before, and hands its caller nothing of what \<^verbatim>\<open>Put\<close> returned: one write for
  code, for a body and for receipts, three for a CHT entry, and for a trie request one for
  each proof node for whose hash \<^verbatim>\<open>Get\<close> hands back \<^verbatim>\<open>nil\<close> when its turn comes.
\<close>

lemma puts_StoreResult:
  "puts (StoreResult K hh (CodeReq c) db) =
     puts db @ [(ContentKey (CodeRequest.Hash c), RawValue (Data c),
                 accepts db (ContentKey (CodeRequest.Hash c)) (RawValue (Data c)))]"
  "puts (StoreResult K hh (BlockReq b) db) =
     puts db @ [(BodyKey (BlockRequest.Hash b) (BlockRequest.Number b), RawValue (Rlp b),
                 accepts db (BodyKey (BlockRequest.Hash b) (BlockRequest.Number b)) (RawValue (Rlp b)))]"
  "puts (StoreResult K hh (ReceiptsReq r) db) =
     puts db @ [(ReceiptsKey (ReceiptsRequest.Hash r) (ReceiptsRequest.Number r),
                 ReceiptsValue (Receipts r),
                 accepts db (ReceiptsKey (ReceiptsRequest.Hash r) (ReceiptsRequest.Number r))
                   (ReceiptsValue (Receipts r)))]"
  "puts (StoreResult K hh (ChtReq h) db) = puts (ChtRequest_StoreResult hh h db)"
  "puts (StoreResult K hh (TrieReq t) db) = puts (storeProof K db (TrieRequest.Proof t))"
  by (simp_all add: CodeRequest_StoreResult_def BlockRequest_StoreResult_def
      ReceiptsRequest_StoreResult_def WriteBodyRLP_def WriteBlockReceipts_def
      TrieRequest_StoreResult_def puts_Put)

lemma puts_storeProof_snoc:
  "puts (storeProof K db (xs @ [n])) =
     puts (storeProof K db xs) @
     (if is_nil (Get (storeProof K db xs) (ContentKey (K (bytes_of n))))
      then [(ContentKey (K (bytes_of n)), RawValue n,
             accepts db (ContentKey (K (bytes_of n))) (RawValue n))]
      else [])"
  by (simp add: storeProof_snoc puts_Put accepts_storeProof)

end
